theory Spec2Isabelle
  imports Main "HOL-Library.Char_ord" "HOL-Library.List_Lexorder" "HOL-Library.Multiset"
    "HOL-Library.AList"
begin

section \<open>Data model of \<^verbatim>\<open>scripts/update_currency_data.py\<close>\<close>

text \<open>
  Python strings are modelled as \<^typ>\<open>string\<close>. Python compares \<^verbatim>\<open>str\<close> values
  lexicographically by code point, a proper prefix being smaller; the order on
  \<^typ>\<open>string\<close> (characters by their code, lists lexicographically) is that order on
  the UTF-8 encoding, and UTF-8 preserves the code-point order.

  A value of Python type \<^verbatim>\<open>Optional[str]\<close> (what \<^verbatim>\<open>Element.get\<close> and \<^verbatim>\<open>dict.get\<close>
  return) is a \<^typ>\<open>string option\<close>, \<^const>\<open>None\<close> being Python's \<^verbatim>\<open>None\<close>.
\<close>

text \<open>Truthiness of an \<^verbatim>\<open>Optional[str]\<close>: \<^verbatim>\<open>None\<close> and the empty string are false.\<close>

fun truthy :: "string option \<Rightarrow> bool" where
  "truthy None = False"
| "truthy (Some s) = (s \<noteq> [])"

text \<open>The expression \<^verbatim>\<open>x or d\<close> for an \<^verbatim>\<open>Optional[str]\<close> \<^verbatim>\<open>x\<close> and a string \<^verbatim>\<open>d\<close>.\<close>

fun py_or :: "string option \<Rightarrow> string \<Rightarrow> string" where
  "py_or None d = d"
| "py_or (Some s) d = (if s = [] then d else s)"

text \<open>
  A dictionary with string keys is an association list in insertion order; \<^verbatim>\<open>d[k] = v\<close>
  is \<^const>\<open>AList.update\<close> (an existing key keeps its position, a new key goes last) and
  \<^verbatim>\<open>d.get(k)\<close> is \<^const>\<open>map_of\<close>.
\<close>

type_synonym pydict = "(string \<times> string) list"

definition dict_get :: "pydict \<Rightarrow> string \<Rightarrow> string \<Rightarrow> string" where
  "dict_get d k dflt = (case map_of d k of None \<Rightarrow> dflt | Some v \<Rightarrow> v)"

text \<open>
  The dictionary \<^verbatim>\<open>currency_info\<close> that \<^verbatim>\<open>parse_currency_xml\<close> builds for one
  \<^verbatim>\<open>currency\<close> element: the keys \<^verbatim>\<open>iso4217\<close>, \<^verbatim>\<open>from\<close> and \<^verbatim>\<open>to\<close> hold the attribute
  or \<^verbatim>\<open>None\<close>, the key \<^verbatim>\<open>tender\<close> holds the attribute or the string \<^verbatim>\<open>true\<close>.
\<close>

record currency =
  iso4217 :: "string option"
  from_date :: "string option"
  to_date :: "string option"
  tender :: string

section \<open>Currency resolver\<close>

text \<open>
  \<^verbatim>\<open>determine_current_currency\<close>, lines 114 to 132. The first argument is the value
  of \<^verbatim>\<open>date.today().strftime('%Y-%m-%d')\<close> that the function reads on entry.
\<close>

fun determine_current_currency :: "string \<Rightarrow> currency list \<Rightarrow> currency option" where
  "determine_current_currency current_date [] = None"
| "determine_current_currency current_date (c # cs) =
     (if tender c = ''false'' then determine_current_currency current_date cs
      else if \<not> truthy (to_date c) then Some c
      else if the (to_date c) \<ge> current_date then Some c
      else determine_current_currency current_date cs)"

text \<open>
  \<^verbatim>\<open>get_all_currencies\<close>, lines 134 to 144. Python's \<^verbatim>\<open>sorted\<close> is a stable sort by
  the key, as is \<^const>\<open>sort_key\<close>.
\<close>

definition from_key :: "currency \<Rightarrow> string" where
  "from_key x = py_or (from_date x) ''0000-01-01''"

definition get_all_currencies :: "currency list \<Rightarrow> currency list" where
  "get_all_currencies currencies =
     sort_key from_key (filter (\<lambda>c. tender c \<noteq> ''false'') currencies)"

text \<open>
  The status computed in both historical generators (lines 204 to 209 and 276 to 281).
\<close>

definition status_of :: "string \<Rightarrow> currency \<Rightarrow> string" where
  "status_of current_date c =
     (if \<not> truthy (to_date c) then ''Active''
      else if the (to_date c) \<ge> current_date then ''Active''
      else ''Historical'')"

text \<open>
  The entries that qualify as current: tender, and with no end date or an end date
  on or after the current date.
\<close>

definition is_tender :: "currency \<Rightarrow> bool" where
  "is_tender c = (tender c \<noteq> ''false'')"

definition still_valid :: "string \<Rightarrow> currency \<Rightarrow> bool" where
  "still_valid current_date c =
     (case to_date c of None \<Rightarrow> True | Some t \<Rightarrow> t = [] \<or> current_date \<le> t)"

section \<open>Reference loader\<close>

text \<open>
  An object of the \<^verbatim>\<open>pycountry\<close> database is the dictionary of its attributes;
  reading an attribute it does not have raises \<^verbatim>\<open>AttributeError\<close>. Iterating a
  database either raises while the data is loaded (\<^const>\<open>Inl\<close>) or yields its
  objects in order (\<^const>\<open>Inr\<close>). Both exceptions are subclasses of \<^verbatim>\<open>Exception\<close>.
\<close>

datatype error = AttributeError string | LoadError string

definition getattr :: "pydict \<Rightarrow> string \<Rightarrow> error + string" where
  "getattr obj a = (case map_of obj a of None \<Rightarrow> Inl (AttributeError a) | Some v \<Rightarrow> Inr v)"

text \<open>The body of the \<^verbatim>\<open>try\<close> block of \<^verbatim>\<open>fetch_iso3166_data\<close>, lines 36 to 46.\<close>

fun iso3166_loop :: "(string \<times> pydict) list \<Rightarrow> pydict list \<Rightarrow> error + (string \<times> pydict) list" where
  "iso3166_loop countries [] = Inr countries"
| "iso3166_loop countries (country # rest) =
     (case getattr country ''alpha_2'' of Inl e \<Rightarrow> Inl e | Inr a2 \<Rightarrow>
      case getattr country ''alpha_3'' of Inl e \<Rightarrow> Inl e | Inr a3 \<Rightarrow>
      case getattr country ''name'' of Inl e \<Rightarrow> Inl e | Inr nm \<Rightarrow>
        iso3166_loop
          (AList.update a2
             [(''alpha_2'', a2), (''alpha_3'', a3), (''name'', nm),
              (''official_name'', dict_get country ''official_name'' nm)]
             countries)
          rest)"

text \<open>\<^verbatim>\<open>fetch_iso3166_data\<close>, lines 33 to 49: any exception gives the empty dictionary.\<close>

definition fetch_iso3166_data :: "error + pydict list \<Rightarrow> (string \<times> pydict) list" where
  "fetch_iso3166_data pycountry_countries =
     (case pycountry_countries of
        Inl e \<Rightarrow> []
      | Inr objs \<Rightarrow> (case iso3166_loop [] objs of Inl e \<Rightarrow> [] | Inr countries \<Rightarrow> countries))"

text \<open>The body of the \<^verbatim>\<open>try\<close> block of \<^verbatim>\<open>fetch_iso4217_data\<close>, lines 54 to 63.\<close>

fun iso4217_loop :: "(string \<times> pydict) list \<Rightarrow> pydict list \<Rightarrow> error + (string \<times> pydict) list" where
  "iso4217_loop currencies [] = Inr currencies"
| "iso4217_loop currencies (cur # rest) =
     (case getattr cur ''alpha_3'' of Inl e \<Rightarrow> Inl e | Inr a3 \<Rightarrow>
      case getattr cur ''name'' of Inl e \<Rightarrow> Inl e | Inr nm \<Rightarrow>
      case getattr cur ''numeric'' of Inl e \<Rightarrow> Inl e | Inr num \<Rightarrow>
        iso4217_loop
          (AList.update a3 [(''code'', a3), (''name'', nm), (''numeric'', num)] currencies)
          rest)"

text \<open>\<^verbatim>\<open>fetch_iso4217_data\<close>, lines 51 to 66.\<close>

definition fetch_iso4217_data :: "error + pydict list \<Rightarrow> (string \<times> pydict) list" where
  "fetch_iso4217_data pycountry_currencies =
     (case pycountry_currencies of
        Inl e \<Rightarrow> []
      | Inr objs \<Rightarrow> (case iso4217_loop [] objs of Inl e \<Rightarrow> [] | Inr currencies \<Rightarrow> currencies))"

section \<open>Region-currency parser\<close>

text \<open>
  The loop of \<^verbatim>\<open>parse_currency_xml\<close>, lines 91 to 106, over the \<^verbatim>\<open>region\<close> elements
  already located in the document: each is its \<^verbatim>\<open>iso3166\<close> attribute and the attribute
  dictionaries of its \<^verbatim>\<open>currency\<close> children.
\<close>

definition currency_info_of :: "pydict \<Rightarrow> currency" where
  "currency_info_of currency_elem =
     \<lparr> iso4217 = map_of currency_elem ''iso4217'',
       from_date = map_of currency_elem ''from'',
       to_date = map_of currency_elem ''to'',
       tender = dict_get currency_elem ''tender'' ''true'' \<rparr>"

fun parse_regions ::
  "(string \<times> currency list) list \<Rightarrow> (string option \<times> pydict list) list
     \<Rightarrow> (string \<times> currency list) list" where
  "parse_regions currency_data [] = currency_data"
| "parse_regions currency_data ((region_code, elems) # rest) =
     (if \<not> truthy region_code then parse_regions currency_data rest
      else parse_regions
             (AList.update (the region_code) (map currency_info_of elems) currency_data) rest)"

section \<open>View generator\<close>

text \<open>The fields of \<^verbatim>\<open>CurrencyDataProcessor\<close> that the generators read.\<close>

record processor =
  iso3166_data :: "(string \<times> pydict) list"
  iso4217_data :: "(string \<times> pydict) list"

text \<open>\<^verbatim>\<open>d.get(k, {})\<close> on a dictionary of dictionaries; \<^verbatim>\<open>None\<close> is never a key.\<close>

definition get_info :: "(string \<times> pydict) list \<Rightarrow> string option \<Rightarrow> pydict" where
  "get_info d k =
     (case k of None \<Rightarrow> [] | Some s \<Rightarrow> (case map_of d s of None \<Rightarrow> [] | Some v \<Rightarrow> v))"

text \<open>\<^verbatim>\<open>is_valid_region\<close>, lines 146 to 157.\<close>

definition is_valid_region :: "string \<Rightarrow> pydict \<Rightarrow> bool" where
  "is_valid_region region_code country_info =
     (let country_name = dict_get country_info ''name'' ''Unknown'' in
      if country_name \<in> set [''Unknown'', ''''] \<or> country_name = [] then False
      else if country_info = [] then False
      else True)"

text \<open>\<^verbatim>\<open>country_info.get('official_name', country_info.get('name'))\<close>\<close>

definition official_name_of :: "pydict \<Rightarrow> string option" where
  "official_name_of country_info =
     (case map_of country_info ''official_name'' of
        None \<Rightarrow> map_of country_info ''name'' | Some v \<Rightarrow> Some v)"

text \<open>\<^verbatim>\<open>currency_info.get('name', currency['iso4217'])\<close>\<close>

definition currency_name_of :: "pydict \<Rightarrow> currency \<Rightarrow> string option" where
  "currency_name_of currency_info c =
     (case map_of currency_info ''name'' of None \<Rightarrow> iso4217 c | Some v \<Rightarrow> Some v)"

text \<open>
  The generators read two things from outside. The current date is an argument
  \<^verbatim>\<open>current_date\<close>, one value for the whole run. Each row reads
  \<^verbatim>\<open>datetime.now(timezone.utc).isoformat()\<close> once: the clock \<^verbatim>\<open>now\<close> gives the
  \<open>n\<close>-th reading of a run, and the loops count the readings made so far.

  A \<^verbatim>\<open>DataFrame\<close> built from a list of row dictionaries is the list of its rows; a
  row is a record of its columns. Fields of the same name in different row types are
  told apart by the record's name.
\<close>

subsection \<open>Current view\<close>

record current_row =
  country_code :: string
  country_name :: "string option"
  official_country_name :: "string option"
  iso_alpha3_code :: string
  currency_code :: "string option"
  currency_name :: "string option"
  active_since :: string
  last_updated :: string

text \<open>\<^verbatim>\<open>generate_current_currencies_csv\<close>, lines 159 to 186.\<close>

fun current_rows ::
  "processor \<Rightarrow> string \<Rightarrow> (nat \<Rightarrow> string) \<Rightarrow> nat \<Rightarrow> (string \<times> currency list) list
     \<Rightarrow> current_row list" where
  "current_rows self current_date now n [] = []"
| "current_rows self current_date now n ((region_code, currencies) # rest) =
     (let country_info = get_info (iso3166_data self) (Some region_code) in
      if \<not> is_valid_region region_code country_info
      then current_rows self current_date now n rest
      else (case determine_current_currency current_date currencies of
          None \<Rightarrow> current_rows self current_date now n rest
        | Some current_currency \<Rightarrow>
            (let currency_info = get_info (iso4217_data self) (iso4217 current_currency) in
             \<lparr> current_row.country_code = region_code,
               current_row.country_name = map_of country_info ''name'',
               current_row.official_country_name = official_name_of country_info,
               current_row.iso_alpha3_code = dict_get country_info ''alpha_3'' '''',
               current_row.currency_code = iso4217 current_currency,
               current_row.currency_name = currency_name_of currency_info current_currency,
               current_row.active_since = py_or (from_date current_currency) ''Unknown'',
               current_row.last_updated = now n \<rparr>
             # current_rows self current_date now (Suc n) rest)))"

definition generate_current_currencies_csv ::
  "processor \<Rightarrow> string \<Rightarrow> (nat \<Rightarrow> string) \<Rightarrow> (string \<times> currency list) list
     \<Rightarrow> current_row list" where
  "generate_current_currencies_csv self current_date now currency_data =
     current_rows self current_date now 0 currency_data"

record current_entry =
  country_name :: "string option"
  official_country_name :: "string option"
  iso_alpha3_code :: string
  currency_code :: "string option"
  currency_name :: "string option"
  active_since :: string

text \<open>\<^verbatim>\<open>generate_current_currencies_json\<close>, lines 233 to 257.\<close>

fun current_json_loop ::
  "processor \<Rightarrow> string \<Rightarrow> (string \<times> current_entry) list \<Rightarrow> (string \<times> currency list) list
     \<Rightarrow> (string \<times> current_entry) list" where
  "current_json_loop self current_date data [] = data"
| "current_json_loop self current_date data ((region_code, currencies) # rest) =
     (let country_info = get_info (iso3166_data self) (Some region_code) in
      if \<not> is_valid_region region_code country_info
      then current_json_loop self current_date data rest
      else (case determine_current_currency current_date currencies of
          None \<Rightarrow> current_json_loop self current_date data rest
        | Some current_currency \<Rightarrow>
            (let currency_info = get_info (iso4217_data self) (iso4217 current_currency) in
             current_json_loop self current_date
               (AList.update region_code
                  \<lparr> current_entry.country_name = map_of country_info ''name'',
                    current_entry.official_country_name = official_name_of country_info,
                    current_entry.iso_alpha3_code = dict_get country_info ''alpha_3'' '''',
                    current_entry.currency_code = iso4217 current_currency,
                    current_entry.currency_name = currency_name_of currency_info current_currency,
                    current_entry.active_since = py_or (from_date current_currency) ''Unknown'' \<rparr>
                  data)
               rest)))"

definition generate_current_currencies_json ::
  "processor \<Rightarrow> string \<Rightarrow> (string \<times> currency list) list \<Rightarrow> (string \<times> current_entry) list" where
  "generate_current_currencies_json self current_date currency_data =
     current_json_loop self current_date [] currency_data"

subsection \<open>Historical view\<close>

record historical_row =
  country_code :: string
  country_name :: "string option"
  official_country_name :: "string option"
  iso_alpha3_code :: string
  currency_code :: "string option"
  currency_name :: "string option"
  active_from :: string
  active_until :: string
  status :: string
  last_updated :: string

text \<open>The inner loop of \<^verbatim>\<open>generate_historical_currencies_csv\<close>, lines 201 to 224.\<close>

fun historical_region_rows ::
  "processor \<Rightarrow> string \<Rightarrow> (nat \<Rightarrow> string) \<Rightarrow> nat \<Rightarrow> string \<Rightarrow> pydict \<Rightarrow> currency list
     \<Rightarrow> historical_row list" where
  "historical_region_rows self current_date now n region_code country_info [] = []"
| "historical_region_rows self current_date now n region_code country_info (c # cs) =
     (let currency_info = get_info (iso4217_data self) (iso4217 c) in
      \<lparr> historical_row.country_code = region_code,
        historical_row.country_name = map_of country_info ''name'',
        historical_row.official_country_name = official_name_of country_info,
        historical_row.iso_alpha3_code = dict_get country_info ''alpha_3'' '''',
        historical_row.currency_code = iso4217 c,
        historical_row.currency_name = currency_name_of currency_info c,
        historical_row.active_from = py_or (from_date c) ''Unknown'',
        historical_row.active_until = py_or (to_date c) '''',
        historical_row.status = status_of current_date c,
        historical_row.last_updated = now n \<rparr>
      # historical_region_rows self current_date now (Suc n) region_code country_info cs)"

text \<open>The outer loop, lines 193 to 224.\<close>

fun historical_rows ::
  "processor \<Rightarrow> string \<Rightarrow> (nat \<Rightarrow> string) \<Rightarrow> nat \<Rightarrow> (string \<times> currency list) list
     \<Rightarrow> historical_row list" where
  "historical_rows self current_date now n [] = []"
| "historical_rows self current_date now n ((region_code, currencies) # rest) =
     (let country_info = get_info (iso3166_data self) (Some region_code) in
      if \<not> is_valid_region region_code country_info
      then historical_rows self current_date now n rest
      else (let all_currencies = get_all_currencies currencies in
            historical_region_rows self current_date now n region_code country_info all_currencies
            @ historical_rows self current_date now (n + length all_currencies) rest))"

text \<open>
  \<^verbatim>\<open>DataFrame.sort_values\<close> on several columns is a stable sort by the columns in
  turn, each ascending or descending as its flag says; string columns compare as
  Python strings. The sort is an insertion sort by a comparison that keeps equal rows
  in their order.
\<close>

fun insort_by :: "('a \<Rightarrow> 'a \<Rightarrow> bool) \<Rightarrow> 'a \<Rightarrow> 'a list \<Rightarrow> 'a list" where
  "insort_by le x [] = [x]"
| "insort_by le x (y # ys) = (if le x y then x # y # ys else y # insort_by le x ys)"

definition sort_by :: "('a \<Rightarrow> 'a \<Rightarrow> bool) \<Rightarrow> 'a list \<Rightarrow> 'a list" where
  "sort_by le xs = foldr (insort_by le) xs []"

text \<open>
  The order of \<^verbatim>\<open>sort_values(['country_code', 'status', 'active_from'],
  ascending=[True, False, True])\<close>, line 229: \<^verbatim>\<open>country_code\<close> ascending, then
  \<^verbatim>\<open>status\<close> descending, then \<^verbatim>\<open>active_from\<close> ascending.
\<close>

definition row_le :: "historical_row \<Rightarrow> historical_row \<Rightarrow> bool" where
  "row_le a b =
     (historical_row.country_code a < historical_row.country_code b \<or>
      (historical_row.country_code a = historical_row.country_code b \<and>
       (historical_row.status a > historical_row.status b \<or>
        (historical_row.status a = historical_row.status b \<and>
         historical_row.active_from a \<le> historical_row.active_from b))))"

text \<open>\<^verbatim>\<open>generate_historical_currencies_csv\<close>, lines 188 to 231.\<close>

definition generate_historical_currencies_csv ::
  "processor \<Rightarrow> string \<Rightarrow> (nat \<Rightarrow> string) \<Rightarrow> (string \<times> currency list) list
     \<Rightarrow> historical_row list" where
  "generate_historical_currencies_csv self current_date now currency_data =
     (let df = historical_rows self current_date now 0 currency_data in
      if df \<noteq> [] then sort_by row_le df else df)"

record historical_item =
  currency_code :: "string option"
  currency_name :: "string option"
  active_from :: string
  active_until :: string
  status :: string

record historical_entry =
  country_name :: "string option"
  official_country_name :: "string option"
  iso_alpha3_code :: string
  currencies :: "historical_item list"

text \<open>The inner loop of \<^verbatim>\<open>generate_historical_currencies_json\<close>, lines 272 to 289.\<close>

definition historical_item_of :: "processor \<Rightarrow> string \<Rightarrow> currency \<Rightarrow> historical_item" where
  "historical_item_of self current_date c =
     (let currency_info = get_info (iso4217_data self) (iso4217 c) in
      \<lparr> historical_item.currency_code = iso4217 c,
        historical_item.currency_name = currency_name_of currency_info c,
        historical_item.active_from = py_or (from_date c) ''Unknown'',
        historical_item.active_until = py_or (to_date c) '''',
        historical_item.status = status_of current_date c \<rparr>)"

text \<open>\<^verbatim>\<open>generate_historical_currencies_json\<close>, lines 259 to 299.\<close>

fun historical_json_loop ::
  "processor \<Rightarrow> string \<Rightarrow> (string \<times> historical_entry) list \<Rightarrow> (string \<times> currency list) list
     \<Rightarrow> (string \<times> historical_entry) list" where
  "historical_json_loop self current_date data [] = data"
| "historical_json_loop self current_date data ((region_code, currencies') # rest) =
     (let country_info = get_info (iso3166_data self) (Some region_code) in
      if \<not> is_valid_region region_code country_info
      then historical_json_loop self current_date data rest
      else (let all_currencies = get_all_currencies currencies';
                currency_list = map (historical_item_of self current_date) all_currencies in
            if currency_list \<noteq> []
            then historical_json_loop self current_date
                   (AList.update region_code
                      \<lparr> historical_entry.country_name = map_of country_info ''name'',
                        historical_entry.official_country_name = official_name_of country_info,
                        historical_entry.iso_alpha3_code = dict_get country_info ''alpha_3'' '''',
                        historical_entry.currencies = currency_list \<rparr>
                      data)
                   rest
            else historical_json_loop self current_date data rest))"

definition generate_historical_currencies_json ::
  "processor \<Rightarrow> string \<Rightarrow> (string \<times> currency list) list \<Rightarrow> (string \<times> historical_entry) list" where
  "generate_historical_currencies_json self current_date currency_data =
     historical_json_loop self current_date [] currency_data"

section \<open>Notions used to state the properties\<close>

text \<open>
  A calendar date in the format \<^verbatim>\<open>%Y-%m-%d\<close> of line 116, with a four-digit year:
  the dates of the source document and of the current date.
\<close>

definition is_digit :: "char \<Rightarrow> bool" where
  "is_digit c = (CHR ''0'' \<le> c \<and> c \<le> CHR ''9'')"

fun iso_date :: "string \<Rightarrow> bool" where
  "iso_date [y1, y2, y3, y4, s1, m1, m2, s2, d1, d2] =
     (is_digit y1 \<and> is_digit y2 \<and> is_digit y3 \<and> is_digit y4 \<and> s1 = CHR ''-'' \<and>
      is_digit m1 \<and> is_digit m2 \<and> ''01'' \<le> [m1, m2] \<and> [m1, m2] \<le> ''12'' \<and> s2 = CHR ''-'' \<and>
      is_digit d1 \<and> is_digit d2 \<and> ''01'' \<le> [d1, d2] \<and> [d1, d2] \<le> ''31'')"
| "iso_date _ = False"

text \<open>Masking the generation timestamp of a row.\<close>

definition mask_current :: "current_row \<Rightarrow> current_row" where
  "mask_current r = r\<lparr> current_row.last_updated := '''' \<rparr>"

definition mask_historical :: "historical_row \<Rightarrow> historical_row" where
  "mask_historical r = r\<lparr> historical_row.last_updated := '''' \<rparr>"

text \<open>Concrete inputs for the examples.\<close>

definition dem :: currency where
  "dem = \<lparr> iso4217 = Some ''DEM'', from_date = Some ''1948-06-20'',
           to_date = Some ''2001-12-31'', tender = ''true'' \<rparr>"

definition eur :: currency where
  "eur = \<lparr> iso4217 = Some ''EUR'', from_date = Some ''2002-01-01'',
           to_date = None, tender = ''true'' \<rparr>"

definition xxx :: currency where
  "xxx = \<lparr> iso4217 = Some ''XXX'', from_date = None, to_date = None, tender = ''False'' \<rparr>"

definition coin :: currency where
  "coin = \<lparr> iso4217 = Some ''XAU'', from_date = Some ''1990-01-01'',
            to_date = None, tender = ''false'' \<rparr>"

definition example_processor :: processor where
  "example_processor =
     \<lparr> iso3166_data =
         [(''DE'', [(''alpha_2'', ''DE''), (''alpha_3'', ''DEU''), (''name'', ''Germany''),
                    (''official_name'', ''Federal Republic of Germany'')]),
          (''ZZ'', [(''alpha_2'', ''ZZ''), (''alpha_3'', ''ZZZ''), (''name'', ''Unknown''),
                    (''official_name'', ''Unknown'')])],
       iso4217_data =
         [(''EUR'', [(''code'', ''EUR''), (''name'', ''Euro''), (''numeric'', ''978'')])] \<rparr>"

definition example_data :: "(string \<times> currency list) list" where
  "example_data = [(''DE'', [dem, eur]), (''ZZ'', [eur]), (''QQ'', [eur])]"

definition example_clock :: "nat \<Rightarrow> string" where
  "example_clock n = ''2024-06-01T00:00:00+00:00''"

definition other_clock :: "nat \<Rightarrow> string" where
  "other_clock n = (if n = 0 then ''2024-06-01T00:00:01+00:00'' else ''2024-06-01T00:00:02+00:00'')"

text \<open>
  A region code that passes the filter of the generators: the record the country
  table has for it (or the empty dictionary) is a valid region.
\<close>

definition valid_code :: "processor \<Rightarrow> string \<Rightarrow> bool" where
  "valid_code self rc = is_valid_region rc (get_info (iso3166_data self) (Some rc))"

definition undated :: currency where
  "undated = \<lparr> iso4217 = Some ''EUR'', from_date = None, to_date = None, tender = ''true'' \<rparr>"

text \<open>The one row of the historical table for the region \<^verbatim>\<open>DE\<close> with \<^const>\<open>undated\<close>.\<close>

definition undated_row :: historical_row where
  "undated_row =
     \<lparr> historical_row.country_code = ''DE'',
       historical_row.country_name = Some ''Germany'',
       historical_row.official_country_name = Some ''Federal Republic of Germany'',
       historical_row.iso_alpha3_code = ''DEU'',
       historical_row.currency_code = Some ''EUR'',
       historical_row.currency_name = Some ''Euro'',
       historical_row.active_from = ''Unknown'',
       historical_row.active_until = '''',
       historical_row.status = ''Active'',
       historical_row.last_updated = ''2024-06-01T00:00:00+00:00'' \<rparr>"

text \<open>An object of the database that lacks one of the attributes the loader reads.\<close>

definition lacks_attr :: "string list \<Rightarrow> pydict \<Rightarrow> bool" where
  "lacks_attr attrs obj = (\<exists>a \<in> set attrs. map_of obj a = None)"

definition germany_obj :: pydict where
  "germany_obj = [(''alpha_2'', ''DE''), (''alpha_3'', ''DEU''), (''name'', ''Germany'')]"

definition broken_obj :: pydict where
  "broken_obj = [(''alpha_2'', ''QQ''), (''numeric'', ''000'')]"

section \<open>Properties of the currency resolver\<close>

lemma determine_current_currency_find:
  "determine_current_currency d cs = find (\<lambda>c. is_tender c \<and> still_valid d c) cs"
  by (induction cs) (auto simp: is_tender_def still_valid_def split: option.splits)

lemma determine_Some_tender:
  "determine_current_currency d cs = Some c \<Longrightarrow> tender c \<noteq> ''false''"
  by (induction cs) (auto split: if_splits)

lemma get_all_currencies_set:
  "set (get_all_currencies cs) = {c \<in> set cs. tender c \<noteq> ''false''}"
  by (simp add: get_all_currencies_def)

lemma iso_date_min: "iso_date d \<Longrightarrow> ''0000-01-01'' \<le> d"
  by (cases d rule: iso_date.cases) (auto simp: is_digit_def)

text \<open>
  C2. \<^const>\<open>determine_current_currency\<close> returns the first entry, in the order of the
  list, that is tender and whose end date is absent or on or after the current date:
  the entry at some index \<open>i\<close> qualifies and no entry before \<open>i\<close> does. It returns
  nothing exactly when no entry qualifies. An end date is absent when it is \<^verbatim>\<open>None\<close>
  or the empty string, and dates compare as strings.
\<close>

theorem determine_current_currency_first_qualifying:
  "(case determine_current_currency d cs of
      None \<Rightarrow> \<forall>c \<in> set cs. \<not> (is_tender c \<and> still_valid d c)
    | Some c \<Rightarrow> \<exists>i < length cs. cs ! i = c \<and> is_tender c \<and> still_valid d c \<and>
        (\<forall>j < i. \<not> (is_tender (cs ! j) \<and> still_valid d (cs ! j))))"
proof (cases "determine_current_currency d cs")
  case None
  then have "find (\<lambda>c. is_tender c \<and> still_valid d c) cs = None"
    by (simp add: determine_current_currency_find)
  then show ?thesis
    using None by (auto simp: find_None_iff)
next
  case (Some c)
  then have "find (\<lambda>c. is_tender c \<and> still_valid d c) cs = Some c"
    by (simp add: determine_current_currency_find)
  then show ?thesis
    using Some by (auto simp: find_Some_iff)
qed

theorem determine_current_currency_first_qualifying_witness:
  "determine_current_currency ''2024-06-01'' [coin, dem, eur] = Some eur \<and>
   [coin, dem, eur] ! 2 = eur \<and> is_tender eur \<and> still_valid ''2024-06-01'' eur \<and>
   \<not> is_tender coin \<and> \<not> still_valid ''2024-06-01'' dem \<and>
   determine_current_currency ''2024-06-01'' [coin, dem] = None"
  using determine_current_currency_first_qualifying
      [where d = "''2024-06-01''" and cs = "[coin, dem, eur]"]
    determine_current_currency_first_qualifying
      [where d = "''2024-06-01''" and cs = "[coin, dem]"]
  by (simp add: coin_def dem_def eur_def is_tender_def still_valid_def)

text \<open>
  C4. An entry that \<^const>\<open>determine_current_currency\<close> returns never has the tender
  field \<^verbatim>\<open>false\<close>.
\<close>

theorem determine_current_currency_tender:
  "determine_current_currency d cs = Some c \<Longrightarrow> tender c \<noteq> ''false''"
  by (rule determine_Some_tender)

theorem determine_current_currency_tender_witness:
  "determine_current_currency ''2024-06-01'' [coin, dem, eur] = Some eur \<and>
   tender eur \<noteq> ''false''"
proof -
  have h: "determine_current_currency ''2024-06-01'' [coin, dem, eur] = Some eur"
    by (simp add: coin_def dem_def eur_def)
  show ?thesis
    using h determine_current_currency_tender [OF h] by simp
qed

text \<open>
  C3. \<^const>\<open>get_all_currencies\<close> returns exactly the tender entries, each as often as
  the input has it, in non-decreasing order of the sort key. The key of an entry with a
  start date is that date; the key of an entry without one is at most every calendar
  date, so such an entry sorts first.
\<close>

theorem get_all_currencies_sorted_tender:
  "mset (get_all_currencies cs) = mset (filter is_tender cs) \<and>
   sorted (map from_key (get_all_currencies cs)) \<and>
   (truthy (from_date c) \<longrightarrow> from_key c = the (from_date c)) \<and>
   (\<not> truthy (from_date c) \<and> iso_date d \<longrightarrow> from_key c \<le> d)"
proof -
  have "\<not> truthy (from_date c) \<Longrightarrow> from_key c = ''0000-01-01''"
    by (cases "from_date c") (auto simp: from_key_def)
  moreover have "truthy (from_date c) \<Longrightarrow> from_key c = the (from_date c)"
    by (cases "from_date c") (auto simp: from_key_def)
  moreover have "is_tender = (\<lambda>c. tender c \<noteq> ''false'')"
    by (auto simp: is_tender_def)
  ultimately show ?thesis
    by (auto simp: get_all_currencies_def iso_date_min)
qed

theorem get_all_currencies_sorted_tender_witness:
  "get_all_currencies [eur, coin, xxx, dem] = [xxx, dem, eur] \<and>
   from_key dem = ''1948-06-20'' \<and> iso_date ''1948-06-20'' \<and> from_key xxx \<le> ''1948-06-20''"
  using get_all_currencies_sorted_tender
      [where cs = "[eur, coin, xxx, dem]" and c = dem and d = "''1948-06-20''"]
    get_all_currencies_sorted_tender
      [where cs = "[eur, coin, xxx, dem]" and c = xxx and d = "''1948-06-20''"]
  by (simp add: get_all_currencies_def from_key_def eur_def coin_def xxx_def dem_def
      is_tender_def is_digit_def)

text \<open>
  C10. Only the exact string \<^verbatim>\<open>false\<close> makes an entry non-tender. An entry with any
  other tender field is kept by \<^const>\<open>get_all_currencies\<close>, and
  \<^const>\<open>determine_current_currency\<close> returns it when it comes first and its end date
  allows. An entry with the tender field \<^verbatim>\<open>false\<close> is in neither result.
\<close>

theorem tender_only_false_excludes:
  "(tender c \<noteq> ''false'' \<longrightarrow>
      (c \<in> set cs \<longrightarrow> c \<in> set (get_all_currencies cs)) \<and>
      (still_valid d c \<longrightarrow> determine_current_currency d (c # cs) = Some c)) \<and>
   (tender c = ''false'' \<longrightarrow>
      c \<notin> set (get_all_currencies cs) \<and> determine_current_currency d cs \<noteq> Some c)"
  using determine_Some_tender [of d cs c]
  by (auto simp: get_all_currencies_set still_valid_def split: option.splits)

theorem tender_only_false_excludes_witness:
  "tender xxx = ''False'' \<and> xxx \<in> set (get_all_currencies [coin, xxx]) \<and>
   determine_current_currency ''2024-06-01'' [xxx, coin, xxx] = Some xxx \<and>
   tender coin = ''false'' \<and> coin \<notin> set (get_all_currencies [coin, xxx]) \<and>
   determine_current_currency ''2024-06-01'' [coin, xxx] \<noteq> Some coin"
  using tender_only_false_excludes [where c = xxx and cs = "[coin, xxx]" and d = "''2024-06-01''"]
    tender_only_false_excludes [where c = coin and cs = "[coin, xxx]" and d = "''2024-06-01''"]
  by (simp add: xxx_def coin_def still_valid_def)

section \<open>Properties of the view generator\<close>

lemma set_insort_by: "set (insort_by le x xs) = insert x (set xs)"
  by (induction xs) auto

lemma set_sort_by: "set (sort_by le xs) = set xs"
  by (induction xs) (auto simp: sort_by_def set_insort_by)

lemma map_insort_by:
  "(\<And>a b. le (f a) (f b) = le a b) \<Longrightarrow> map f (insort_by le x xs) = insort_by le (f x) (map f xs)"
  by (induction xs) auto

lemma map_sort_by:
  "(\<And>a b. le (f a) (f b) = le a b) \<Longrightarrow> map f (sort_by le xs) = sort_by le (map f xs)"
  by (induction xs) (auto simp: sort_by_def map_insort_by)

lemma set_generate_historical_currencies_csv:
  "set (generate_historical_currencies_csv self d now cd) = set (historical_rows self d now 0 cd)"
  by (simp add: generate_historical_currencies_csv_def Let_def set_sort_by)

lemma current_rows_codes:
  "r \<in> set (current_rows self d now n cd) \<Longrightarrow> valid_code self (current_row.country_code r)"
  by (induction cd arbitrary: n)
     (auto simp: Let_def valid_code_def split: option.splits if_splits)

lemma current_json_loop_keys:
  "k \<in> fst ` set (current_json_loop self d data cd) \<Longrightarrow>
     k \<in> fst ` set data \<or> valid_code self k"
proof (induction cd arbitrary: data)
  case Nil
  then show ?case by simp
next
  case (Cons p cd)
  obtain rc cs where p: "p = (rc, cs)" by (cases p)
  show ?case
  proof (cases "valid_code self rc \<and> determine_current_currency d cs \<noteq> None")
    case False
    then have "current_json_loop self d data (p # cd) = current_json_loop self d data cd"
      by (auto simp: p valid_code_def Let_def)
    then show ?thesis using Cons by simp
  next
    case True
    then obtain e where "current_json_loop self d data (p # cd)
        = current_json_loop self d (AList.update rc e data) cd"
      by (auto simp: p valid_code_def Let_def)
    then have "k \<in> fst ` set (AList.update rc e data) \<or> valid_code self k"
      using Cons by simp
    then show ?thesis using True by (auto simp: dom_update)
  qed
qed

lemma historical_region_rows_code:
  "r \<in> set (historical_region_rows self d now n rc ci cs) \<Longrightarrow> historical_row.country_code r = rc"
  by (induction cs arbitrary: n) (auto simp: Let_def)

lemma historical_rows_codes:
  "r \<in> set (historical_rows self d now n cd) \<Longrightarrow> valid_code self (historical_row.country_code r)"
  by (induction cd arbitrary: n)
     (auto simp: Let_def valid_code_def dest: historical_region_rows_code split: if_splits)

lemma historical_json_loop_keys:
  "k \<in> fst ` set (historical_json_loop self d data cd) \<Longrightarrow>
     k \<in> fst ` set data \<or> valid_code self k"
proof (induction cd arbitrary: data)
  case Nil
  then show ?case by simp
next
  case (Cons p cd)
  obtain rc cs where p: "p = (rc, cs)" by (cases p)
  show ?case
  proof (cases "valid_code self rc \<and> get_all_currencies cs \<noteq> []")
    case False
    then have "historical_json_loop self d data (p # cd) = historical_json_loop self d data cd"
      by (auto simp: p valid_code_def Let_def)
    then show ?thesis using Cons by simp
  next
    case True
    then obtain e where "historical_json_loop self d data (p # cd)
        = historical_json_loop self d (AList.update rc e data) cd"
      by (auto simp: p valid_code_def Let_def)
    then have "k \<in> fst ` set (AList.update rc e data) \<or> valid_code self k"
      using Cons by simp
    then show ?thesis using True by (auto simp: dom_update)
  qed
qed

lemma invalid_code:
  "map_of (iso3166_data self) rc = None \<or>
   dict_get (get_info (iso3166_data self) (Some rc)) ''name'' ''Unknown'' \<in> {'''', ''Unknown''}
   \<Longrightarrow> \<not> valid_code self rc"
  by (auto simp: valid_code_def is_valid_region_def get_info_def dict_get_def Let_def)

text \<open>
  C5. A region code with no record in the country table, or whose resolved name is
  empty or \<^verbatim>\<open>Unknown\<close>, is the country code of no row of the current or the
  historical table and a key of neither structured view.
\<close>

theorem invalid_region_in_no_view:
  assumes "map_of (iso3166_data self) rc = None \<or>
     dict_get (get_info (iso3166_data self) (Some rc)) ''name'' ''Unknown'' \<in> {'''', ''Unknown''}"
  shows "rc \<notin> current_row.country_code ` set (generate_current_currencies_csv self d now cd) \<and>
     rc \<notin> fst ` set (generate_current_currencies_json self d cd) \<and>
     rc \<notin> historical_row.country_code ` set (generate_historical_currencies_csv self d now cd) \<and>
     rc \<notin> fst ` set (generate_historical_currencies_json self d cd)"
proof -
  have inv: "\<not> valid_code self rc"
    using assms by (rule invalid_code)
  have "rc \<notin> current_row.country_code ` set (generate_current_currencies_csv self d now cd)"
    using inv current_rows_codes by (auto simp: generate_current_currencies_csv_def)
  moreover have "rc \<notin> fst ` set (generate_current_currencies_json self d cd)"
    using inv current_json_loop_keys [of rc self d "[]" cd]
    by (auto simp: generate_current_currencies_json_def)
  moreover have "rc \<notin> historical_row.country_code ` set (generate_historical_currencies_csv self d now cd)"
    using inv historical_rows_codes by (auto simp: set_generate_historical_currencies_csv)
  moreover have "rc \<notin> fst ` set (generate_historical_currencies_json self d cd)"
    using inv historical_json_loop_keys [of rc self d "[]" cd]
    by (auto simp: generate_historical_currencies_json_def)
  ultimately show ?thesis by simp
qed

theorem invalid_region_in_no_view_witness:
  "map_of (iso3166_data example_processor) ''QQ'' = None \<and>
   ''QQ'' \<in> fst ` set example_data \<and>
   ''QQ'' \<notin> current_row.country_code `
      set (generate_current_currencies_csv example_processor ''2024-06-01'' example_clock example_data) \<and>
   ''QQ'' \<notin> fst ` set (generate_current_currencies_json example_processor ''2024-06-01'' example_data) \<and>
   ''QQ'' \<notin> historical_row.country_code `
      set (generate_historical_currencies_csv example_processor ''2024-06-01'' example_clock example_data) \<and>
   ''QQ'' \<notin> fst ` set (generate_historical_currencies_json example_processor ''2024-06-01'' example_data) \<and>
   dict_get (get_info (iso3166_data example_processor) (Some ''ZZ'')) ''name'' ''Unknown'' = ''Unknown'' \<and>
   ''ZZ'' \<in> fst ` set example_data \<and>
   ''ZZ'' \<notin> historical_row.country_code `
      set (generate_historical_currencies_csv example_processor ''2024-06-01'' example_clock example_data)"
  using invalid_region_in_no_view [where self = example_processor and rc = "''QQ''"
      and d = "''2024-06-01''" and now = example_clock and cd = example_data]
    invalid_region_in_no_view [where self = example_processor and rc = "''ZZ''"
      and d = "''2024-06-01''" and now = example_clock and cd = example_data]
  by (simp add: example_processor_def example_data_def get_info_def dict_get_def)

subsection \<open>The clock\<close>

lemma current_rows_masked:
  "map mask_current (current_rows self d now n cd) = map mask_current (current_rows self d now' n' cd)"
  by (induction cd arbitrary: n n')
     (auto simp: Let_def mask_current_def split: option.splits)

lemma historical_region_rows_masked:
  "map mask_historical (historical_region_rows self d now n rc ci cs)
     = map mask_historical (historical_region_rows self d now' n' rc ci cs)"
  by (induction cs arbitrary: n n') (auto simp: Let_def mask_historical_def)

lemma historical_rows_masked:
  "map mask_historical (historical_rows self d now n cd)
     = map mask_historical (historical_rows self d now' n' cd)"
proof (induction cd arbitrary: n n')
  case Nil
  then show ?case by simp
next
  case (Cons p cd)
  obtain rc cs where p: "p = (rc, cs)" by (cases p)
  let ?ci = "get_info (iso3166_data self) (Some rc)"
  let ?all = "get_all_currencies cs"
  have a: "map mask_historical (historical_region_rows self d now n rc ?ci ?all)
      = map mask_historical (historical_region_rows self d now' n' rc ?ci ?all)"
    by (rule historical_region_rows_masked)
  have b: "map mask_historical (historical_rows self d now (n + length ?all) cd)
      = map mask_historical (historical_rows self d now' (n' + length ?all) cd)"
    by (rule Cons.IH)
  have c: "map mask_historical (historical_rows self d now n cd)
      = map mask_historical (historical_rows self d now' n' cd)"
    by (rule Cons.IH)
  show ?case
    by (simp add: p Let_def a b c)
qed

lemma row_le_mask: "row_le (mask_historical a) (mask_historical b) = row_le a b"
  by (simp add: row_le_def mask_historical_def)

lemma generate_historical_masked:
  "map mask_historical (generate_historical_currencies_csv self d now cd)
     = (let df = map mask_historical (historical_rows self d now 0 cd) in
        if df \<noteq> [] then sort_by row_le df else df)"
  by (simp add: generate_historical_currencies_csv_def Let_def map_sort_by row_le_mask)

text \<open>
  C7. With the input document, the reference data and the current date fixed, two runs
  differ only in what the clock returns. The rows of the current table and of the
  historical table are then the same, in the same order, once the generation timestamp
  is masked.
\<close>

theorem views_independent_of_clock:
  "map mask_current (generate_current_currencies_csv self d now cd)
     = map mask_current (generate_current_currencies_csv self d now' cd) \<and>
   map mask_historical (generate_historical_currencies_csv self d now cd)
     = map mask_historical (generate_historical_currencies_csv self d now' cd)"
proof -
  have "map mask_historical (historical_rows self d now 0 cd)
      = map mask_historical (historical_rows self d now' 0 cd)"
    by (rule historical_rows_masked)
  then have "map mask_historical (generate_historical_currencies_csv self d now cd)
      = map mask_historical (generate_historical_currencies_csv self d now' cd)"
    by (simp only: generate_historical_masked)
  then show ?thesis
    using current_rows_masked [where n = 0 and n' = 0]
    by (simp add: generate_current_currencies_csv_def)
qed

theorem views_independent_of_clock_witness:
  "generate_current_currencies_csv example_processor ''2024-06-01'' example_clock example_data
     \<noteq> generate_current_currencies_csv example_processor ''2024-06-01'' other_clock example_data \<and>
   map mask_current
      (generate_current_currencies_csv example_processor ''2024-06-01'' example_clock example_data)
     = map mask_current
      (generate_current_currencies_csv example_processor ''2024-06-01'' other_clock example_data) \<and>
   map mask_historical
      (generate_historical_currencies_csv example_processor ''2024-06-01'' example_clock example_data)
     = map mask_historical
      (generate_historical_currencies_csv example_processor ''2024-06-01'' other_clock example_data)"
  using views_independent_of_clock [where self = example_processor and d = "''2024-06-01''"
      and now = example_clock and now' = other_clock and cd = example_data]
  by (simp add: generate_current_currencies_csv_def example_processor_def example_data_def
      example_clock_def other_clock_def get_info_def is_valid_region_def dict_get_def
      dem_def eur_def Let_def)

subsection \<open>Order of the historical table\<close>

lemma sorted_wrt_insort_by:
  assumes "\<And>a b. le a b \<or> le b a" and "\<And>a b c. le a b \<Longrightarrow> le b c \<Longrightarrow> le a c"
  shows "sorted_wrt le xs \<Longrightarrow> sorted_wrt le (insort_by le x xs)"
  using assms by (induction xs) (auto simp: set_insort_by)

lemma sorted_wrt_sort_by:
  assumes "\<And>a b. le a b \<or> le b a" and "\<And>a b c. le a b \<Longrightarrow> le b c \<Longrightarrow> le a c"
  shows "sorted_wrt le (sort_by le xs)"
proof (induction xs)
  case Nil
  then show ?case by (simp add: sort_by_def)
next
  case (Cons x xs)
  then have "sorted_wrt le (insort_by le x (sort_by le xs))"
    using assms by (intro sorted_wrt_insort_by) auto
  then show ?case by (simp add: sort_by_def)
qed

lemma row_le_total: "row_le a b \<or> row_le b a"
  by (auto simp: row_le_def)

lemma row_le_trans: "row_le a b \<Longrightarrow> row_le b c \<Longrightarrow> row_le a c"
  by (auto simp: row_le_def)

lemma generate_historical_currencies_csv_sorted:
  "sorted_wrt row_le (generate_historical_currencies_csv self d now cd)"
  using sorted_wrt_sort_by [of row_le, OF row_le_total row_le_trans]
  by (auto simp: generate_historical_currencies_csv_def Let_def)

text \<open>
  C1. The rows of the historical table are ordered by region code, then by status in
  descending string order, then by the rendered start date. Descending order puts
  \<^verbatim>\<open>Historical\<close> before \<^verbatim>\<open>Active\<close>: for a region with a currency that ended in
  2001 and one with no end date, the row with status \<^verbatim>\<open>Historical\<close> comes first,
  where the comment of line 227 asks for active currencies first.
\<close>

theorem historical_status_order_example:
  "map historical_row.status
     (generate_historical_currencies_csv example_processor ''2024-06-01'' example_clock
        [(''DE'', [dem, eur])])
   = [''Historical'', ''Active'']"
  by (simp add: generate_historical_currencies_csv_def example_processor_def
      get_info_def is_valid_region_def dict_get_def dem_def eur_def Let_def
      get_all_currencies_def from_key_def status_of_def sort_by_def row_le_def)

subsection \<open>Rendering of absent dates\<close>

lemma py_or_if: "py_or x dflt = (if truthy x then the x else dflt)"
  by (cases x) auto

lemma historical_region_rows_fields:
  "r \<in> set (historical_region_rows self d now n rc ci cs) \<Longrightarrow>
     \<exists>c \<in> set cs. historical_row.country_code r = rc \<and>
       historical_row.currency_code r = iso4217 c \<and>
       historical_row.active_from r = py_or (from_date c) ''Unknown'' \<and>
       historical_row.active_until r = py_or (to_date c) ''''"
  by (induction cs arbitrary: n) (auto simp: Let_def)

lemma historical_rows_fields:
  "r \<in> set (historical_rows self d now n cd) \<Longrightarrow>
     \<exists>rc cs c. (rc, cs) \<in> set cd \<and> c \<in> set (get_all_currencies cs) \<and>
       historical_row.country_code r = rc \<and>
       historical_row.currency_code r = iso4217 c \<and>
       historical_row.active_from r = py_or (from_date c) ''Unknown'' \<and>
       historical_row.active_until r = py_or (to_date c) ''''"
proof (induction cd arbitrary: n)
  case Nil
  then show ?case by simp
next
  case (Cons p cd)
  obtain rc cs where p: "p = (rc, cs)" by (cases p)
  let ?ci = "get_info (iso3166_data self) (Some rc)"
  from Cons.prems consider
      (here) "r \<in> set (historical_region_rows self d now n rc ?ci (get_all_currencies cs))"
    | (later) n' where "r \<in> set (historical_rows self d now n' cd)"
    by (auto simp: p Let_def split: if_splits)
  then show ?case
  proof cases
    case here
    from historical_region_rows_fields [OF this] show ?thesis
      by (auto simp: p)
  next
    case later
    from Cons.IH [OF this] show ?thesis
      by (simp add: p) blast
  qed
qed

text \<open>
  C8, as the code has it. Every row of the historical table comes from a tender entry
  of its region; an absent start date is rendered as the string \<^verbatim>\<open>Unknown\<close> and an
  absent end date as the empty string.
\<close>

theorem historical_row_absent_dates:
  assumes "r \<in> set (generate_historical_currencies_csv self d now cd)"
  shows "\<exists>rc cs c. (rc, cs) \<in> set cd \<and> c \<in> set cs \<and> is_tender c \<and>
       historical_row.country_code r = rc \<and>
       historical_row.currency_code r = iso4217 c \<and>
       historical_row.active_from r
         = (if truthy (from_date c) then the (from_date c) else ''Unknown'') \<and>
       historical_row.active_until r
         = (if truthy (to_date c) then the (to_date c) else '''')"
proof -
  from assms have "r \<in> set (historical_rows self d now 0 cd)"
    by (simp add: set_generate_historical_currencies_csv)
  from historical_rows_fields [OF this] show ?thesis
    by (simp add: py_or_if get_all_currencies_set is_tender_def)
qed

lemma undated_rows:
  "generate_historical_currencies_csv example_processor ''2024-06-01'' example_clock
        [(''DE'', [undated])] = [undated_row]"
  by (simp add: generate_historical_currencies_csv_def example_processor_def
      get_info_def is_valid_region_def dict_get_def undated_def Let_def undated_row_def
      get_all_currencies_def from_key_def status_of_def sort_by_def row_le_def
      official_name_of_def currency_name_of_def example_clock_def)

theorem historical_row_absent_dates_witness:
  "undated_row \<in> set (generate_historical_currencies_csv example_processor ''2024-06-01''
        example_clock [(''DE'', [undated])]) \<and>
   from_date undated = None \<and> to_date undated = None \<and> is_tender undated \<and>
   historical_row.currency_code undated_row = iso4217 undated \<and>
   historical_row.active_from undated_row = ''Unknown'' \<and>
   historical_row.active_until undated_row = ''''"
proof -
  have h: "undated_row \<in> set (generate_historical_currencies_csv example_processor ''2024-06-01''
        example_clock [(''DE'', [undated])])"
    by (simp add: undated_rows)
  show ?thesis
    using h historical_row_absent_dates [OF h]
    by (simp add: undated_def undated_row_def is_tender_def)
qed

text \<open>
  C8, as stated, fails: the row of an entry with no start date has \<^verbatim>\<open>Unknown\<close> in
  the column \<^verbatim>\<open>active_from\<close>, not the empty string.
\<close>

theorem historical_absent_from_counterexample:
  "from_date undated = None \<and>
   map historical_row.active_from
     (generate_historical_currencies_csv example_processor ''2024-06-01'' example_clock
        [(''DE'', [undated])])
   = [''Unknown'']"
  by (simp add: generate_historical_currencies_csv_def example_processor_def
      get_info_def is_valid_region_def dict_get_def undated_def Let_def
      get_all_currencies_def from_key_def status_of_def sort_by_def row_le_def)

subsection \<open>The two historical views\<close>

lemma historical_region_rows_pairs:
  "(\<lambda>r. (historical_row.country_code r, historical_row.currency_code r)) `
      set (historical_region_rows self d now n rc ci cs) = (\<lambda>c. (rc, iso4217 c)) ` set cs"
  by (induction cs arbitrary: n) (auto simp: Let_def)

lemma historical_rows_pairs:
  "(\<lambda>r. (historical_row.country_code r, historical_row.currency_code r)) `
      set (historical_rows self d now n cd)
   = {(rc, iso4217 c) | rc cs c.
        (rc, cs) \<in> set cd \<and> valid_code self rc \<and> c \<in> set (get_all_currencies cs)}"
proof (induction cd arbitrary: n)
  case Nil
  then show ?case by simp
next
  case (Cons p cd)
  obtain rc cs where p: "p = (rc, cs)" by (cases p)
  show ?case
  proof (cases "valid_code self rc")
    case False
    then show ?thesis
      using Cons.IH [of n] by (auto simp: p valid_code_def Let_def)
  next
    case True
    let ?ci = "get_info (iso3166_data self) (Some rc)"
    let ?all = "get_all_currencies cs"
    let ?f = "\<lambda>r. (historical_row.country_code r, historical_row.currency_code r)"
    have "?f ` set (historical_rows self d now n (p # cd))
        = ?f ` set (historical_region_rows self d now n rc ?ci ?all)
          \<union> ?f ` set (historical_rows self d now (n + length ?all) cd)"
      using True by (simp add: p valid_code_def Let_def image_Un)
    also have "\<dots> = (\<lambda>c. (rc, iso4217 c)) ` set ?all
          \<union> {(rc, iso4217 c) | rc cs c.
               (rc, cs) \<in> set cd \<and> valid_code self rc \<and> c \<in> set (get_all_currencies cs)}"
      by (simp only: historical_region_rows_pairs Cons.IH)
    also have "\<dots> = {(rc, iso4217 c) | rc cs c.
        (rc, cs) \<in> set (p # cd) \<and> valid_code self rc \<and> c \<in> set (get_all_currencies cs)}"
      using True by (auto simp: p)
    finally show ?thesis .
  qed
qed

lemma set_update_subset: "set (AList.update k v al) \<subseteq> insert (k, v) (set al)"
  by (induction al) auto

lemma historical_json_loop_entries:
  "(rc, e) \<in> set (historical_json_loop self d data cd) \<Longrightarrow>
     (rc, e) \<in> set data \<or>
     (\<exists>cs. (rc, cs) \<in> set cd \<and> valid_code self rc \<and> get_all_currencies cs \<noteq> [] \<and>
        historical_entry.currencies e = map (historical_item_of self d) (get_all_currencies cs))"
proof (induction cd arbitrary: data)
  case Nil
  then show ?case by simp
next
  case (Cons p cd)
  obtain rc' cs' where p: "p = (rc', cs')" by (cases p)
  show ?case
  proof (cases "valid_code self rc' \<and> get_all_currencies cs' \<noteq> []")
    case False
    then have "historical_json_loop self d data (p # cd) = historical_json_loop self d data cd"
      by (auto simp: p valid_code_def Let_def)
    then show ?thesis using Cons by auto
  next
    case True
    define e' where "e' =
       \<lparr> historical_entry.country_name = map_of (get_info (iso3166_data self) (Some rc')) ''name'',
         historical_entry.official_country_name =
           official_name_of (get_info (iso3166_data self) (Some rc')),
         historical_entry.iso_alpha3_code =
           dict_get (get_info (iso3166_data self) (Some rc')) ''alpha_3'' '''',
         historical_entry.currencies =
           map (historical_item_of self d) (get_all_currencies cs') \<rparr>"
    have "historical_json_loop self d data (p # cd)
        = historical_json_loop self d (AList.update rc' e' data) cd"
      using True by (simp add: p valid_code_def Let_def e'_def)
    then have "(rc, e) \<in> set (historical_json_loop self d (AList.update rc' e' data) cd)"
      using Cons.prems by simp
    from Cons.IH [OF this] consider
        (upd) "(rc, e) \<in> set (AList.update rc' e' data)"
      | (rest) "\<exists>cs. (rc, cs) \<in> set cd \<and> valid_code self rc \<and> get_all_currencies cs \<noteq> [] \<and>
          historical_entry.currencies e = map (historical_item_of self d) (get_all_currencies cs)"
      by blast
    then show ?thesis
    proof cases
      case upd
      then have "(rc, e) = (rc', e') \<or> (rc, e) \<in> set data"
        using set_update_subset [of rc' e' data] by auto
      then show ?thesis using True by (auto simp: p e'_def)
    next
      case rest
      then show ?thesis by auto
    qed
  qed
qed

lemma csv_codes_of_region:
  assumes "distinct (map fst cd)" and "(rc, cs) \<in> set cd" and "valid_code self rc"
  shows "historical_row.currency_code `
      {r \<in> set (historical_rows self d now n cd). historical_row.country_code r = rc}
    = iso4217 ` set (get_all_currencies cs)"
proof -
  let ?f = "\<lambda>r. (historical_row.country_code r, historical_row.currency_code r)"
  let ?rows = "set (historical_rows self d now n cd)"
  let ?P = "{(rc, iso4217 c) | rc cs c.
        (rc, cs) \<in> set cd \<and> valid_code self rc \<and> c \<in> set (get_all_currencies cs)}"
  have pairs: "?f ` ?rows = ?P"
    by (rule historical_rows_pairs)
  have uniq: "cs' = cs" if "(rc, cs') \<in> set cd" for cs'
    using eq_key_imp_eq_value [OF assms(1) that assms(2)] .
  show ?thesis
  proof (intro set_eqI iffI)
    fix x
    assume "x \<in> historical_row.currency_code ` {r \<in> ?rows. historical_row.country_code r = rc}"
    then obtain r where r: "r \<in> ?rows" "historical_row.country_code r = rc"
        "x = historical_row.currency_code r"
      by auto
    have "(rc, x) \<in> ?f ` ?rows"
      by (rule image_eqI [where x = r]) (simp_all add: r)
    then have "(rc, x) \<in> ?P"
      by (simp only: pairs)
    then obtain cs' c where c: "(rc, cs') \<in> set cd" "c \<in> set (get_all_currencies cs')"
        "x = iso4217 c"
      by auto
    from c(1) have "cs' = cs" by (rule uniq)
    with c(2,3) show "x \<in> iso4217 ` set (get_all_currencies cs)"
      by simp
  next
    fix x
    assume "x \<in> iso4217 ` set (get_all_currencies cs)"
    then obtain c where c: "c \<in> set (get_all_currencies cs)" "x = iso4217 c"
      by auto
    have "(rc, x) \<in> ?P"
      using assms(2,3) c by auto
    then have "(rc, x) \<in> ?f ` ?rows"
      by (simp only: pairs)
    then obtain r where r: "r \<in> ?rows" "(rc, x) = ?f r"
      by (rule imageE)
    then have "historical_row.country_code r = rc" "x = historical_row.currency_code r"
      by simp_all
    with r(1) show "x \<in> historical_row.currency_code ` {r \<in> ?rows. historical_row.country_code r = rc}"
      by simp
  qed
qed

text \<open>
  C6. The region codes of the parsed history are the keys of a dictionary, so they are
  distinct. Every region code that is a key of the structured historical view is the
  country code of a row of the historical table, and the currency codes listed for it
  in the structured view are exactly the currency codes of its rows in the table.
\<close>

theorem historical_json_regions_in_csv:
  assumes "distinct (map fst cd)"
    and "(rc, e) \<in> set (generate_historical_currencies_json self d cd)"
  shows "rc \<in> historical_row.country_code ` set (generate_historical_currencies_csv self d now cd) \<and>
     set (map historical_item.currency_code (historical_entry.currencies e))
       = historical_row.currency_code `
           {r \<in> set (generate_historical_currencies_csv self d now cd).
              historical_row.country_code r = rc}"
proof -
  let ?csv = "set (generate_historical_currencies_csv self d now cd)"
  from assms(2) have "(rc, e) \<in> set (historical_json_loop self d [] cd)"
    by (simp add: generate_historical_currencies_json_def)
  from historical_json_loop_entries [OF this]
  obtain cs where cs: "(rc, cs) \<in> set cd" "valid_code self rc"
      "get_all_currencies cs \<noteq> []"
      "historical_entry.currencies e = map (historical_item_of self d) (get_all_currencies cs)"
    by auto
  have codes: "historical_row.currency_code ` {r \<in> ?csv. historical_row.country_code r = rc}
      = iso4217 ` set (get_all_currencies cs)"
    using csv_codes_of_region [OF assms(1) cs(1,2), of d now 0]
    by (simp only: set_generate_historical_currencies_csv)
  have item: "historical_item.currency_code (historical_item_of self d c) = iso4217 c" for c
    by (simp add: historical_item_of_def Let_def)
  have json: "set (map historical_item.currency_code (historical_entry.currencies e))
      = iso4217 ` set (get_all_currencies cs)"
    by (simp add: cs(4) item image_image)
  obtain c where "c \<in> set (get_all_currencies cs)"
    using cs(3) by (cases "get_all_currencies cs") auto
  then have "iso4217 c \<in> historical_row.currency_code `
      {r \<in> ?csv. historical_row.country_code r = rc}"
    by (simp only: codes) (rule imageI)
  then obtain r where "r \<in> ?csv" "historical_row.country_code r = rc"
    by auto
  then have region: "rc \<in> historical_row.country_code ` ?csv"
    by auto
  have "set (map historical_item.currency_code (historical_entry.currencies e))
      = historical_row.currency_code ` {r \<in> ?csv. historical_row.country_code r = rc}"
    by (simp only: json codes)
  with region show ?thesis
    by (rule conjI)
qed

theorem historical_json_regions_in_csv_witness:
  "distinct (map fst example_data) \<and>
   map fst (generate_historical_currencies_json example_processor ''2024-06-01'' example_data)
     = [''DE''] \<and>
   ''DE'' \<in> historical_row.country_code `
      set (generate_historical_currencies_csv example_processor ''2024-06-01'' example_clock
             example_data) \<and>
   set (map historical_item.currency_code
          (historical_entry.currencies
             (snd (hd (generate_historical_currencies_json example_processor ''2024-06-01''
                         example_data)))))
     = historical_row.currency_code `
         {r \<in> set (generate_historical_currencies_csv example_processor ''2024-06-01''
                       example_clock example_data).
            historical_row.country_code r = ''DE''}"
proof -
  let ?json = "generate_historical_currencies_json example_processor ''2024-06-01'' example_data"
  have keys: "map fst ?json = [''DE'']"
    by (simp add: generate_historical_currencies_json_def example_processor_def example_data_def
        get_info_def is_valid_region_def dict_get_def dem_def eur_def Let_def
        get_all_currencies_def from_key_def)
  have d: "distinct (map fst example_data)"
    by (simp add: example_data_def)
  from keys have "(''DE'', snd (hd ?json)) \<in> set ?json"
    by (cases ?json) auto
  from historical_json_regions_in_csv [OF d this, where now = example_clock]
  show ?thesis
    using d keys by simp
qed

section \<open>Properties of the reference loader\<close>

lemma iso3166_loop_fails:
  "\<exists>obj \<in> set objs. lacks_attr [''alpha_2'', ''alpha_3'', ''name''] obj \<Longrightarrow>
     \<exists>e. iso3166_loop countries objs = Inl e"
  by (induction objs arbitrary: countries)
     (auto simp: lacks_attr_def getattr_def split: option.splits sum.splits)

lemma iso4217_loop_fails:
  "\<exists>obj \<in> set objs. lacks_attr [''alpha_3'', ''name'', ''numeric''] obj \<Longrightarrow>
     \<exists>e. iso4217_loop acc objs = Inl e"
  by (induction objs arbitrary: acc)
     (auto simp: lacks_attr_def getattr_def split: option.splits sum.splits)

text \<open>
  C9. When the database raises while it is loaded, or one of its objects lacks an
  attribute the loader reads, \<^const>\<open>fetch_iso3166_data\<close> and
  \<^const>\<open>fetch_iso4217_data\<close> return the empty dictionary; they return a dictionary
  on every input and raise nothing.
\<close>

theorem reference_loader_failure_empty:
  "(src = Inl e \<or>
      (\<exists>objs. src = Inr objs \<and> (\<exists>obj \<in> set objs. lacks_attr [''alpha_2'', ''alpha_3'', ''name''] obj))
     \<longrightarrow> fetch_iso3166_data src = []) \<and>
   (src = Inl e \<or>
      (\<exists>objs. src = Inr objs \<and> (\<exists>obj \<in> set objs. lacks_attr [''alpha_3'', ''name'', ''numeric''] obj))
     \<longrightarrow> fetch_iso4217_data src = [])"
proof (intro conjI impI)
  assume "src = Inl e \<or>
      (\<exists>objs. src = Inr objs \<and> (\<exists>obj \<in> set objs. lacks_attr [''alpha_2'', ''alpha_3'', ''name''] obj))"
  then show "fetch_iso3166_data src = []"
    using iso3166_loop_fails [of _ "[]"]
    by (fastforce simp: fetch_iso3166_data_def split: sum.splits)
next
  assume "src = Inl e \<or>
      (\<exists>objs. src = Inr objs \<and> (\<exists>obj \<in> set objs. lacks_attr [''alpha_3'', ''name'', ''numeric''] obj))"
  then show "fetch_iso4217_data src = []"
    using iso4217_loop_fails [of _ "[]"]
    by (fastforce simp: fetch_iso4217_data_def split: sum.splits)
qed

theorem reference_loader_failure_empty_witness:
  "fetch_iso3166_data (Inl (LoadError ''no database'')) = [] \<and>
   fetch_iso4217_data (Inl (LoadError ''no database'')) = [] \<and>
   lacks_attr [''alpha_2'', ''alpha_3'', ''name''] broken_obj \<and>
   fetch_iso3166_data (Inr [germany_obj, broken_obj]) = [] \<and>
   lacks_attr [''alpha_3'', ''name'', ''numeric''] broken_obj \<and>
   fetch_iso4217_data (Inr [germany_obj, broken_obj]) = [] \<and>
   fetch_iso3166_data (Inr [germany_obj]) \<noteq> []"
  using reference_loader_failure_empty [where src = "Inl (LoadError ''no database'')"
      and e = "LoadError ''no database''"]
    reference_loader_failure_empty [where src = "Inr [germany_obj, broken_obj]"]
  by (simp add: lacks_attr_def broken_obj_def germany_obj_def fetch_iso3166_data_def
      getattr_def dict_get_def)

section \<open>Properties of the parser\<close>

text \<open>
  The parsed history is a dictionary: its region codes are distinct, whatever the
  document repeats. A \<^verbatim>\<open>currency\<close> element without a \<^verbatim>\<open>tender\<close> attribute is tender.
\<close>

lemma parse_regions_distinct:
  "distinct (map fst currency_data) \<Longrightarrow> distinct (map fst (parse_regions currency_data regions))"
proof (induction regions arbitrary: currency_data)
  case Nil
  then show ?case by simp
next
  case (Cons p regions)
  obtain region_code elems where p: "p = (region_code, elems)" by (cases p)
  show ?case
    using Cons.prems by (auto simp: p intro!: Cons.IH distinct_update)
qed

lemma currency_info_of_default_tender:
  "map_of currency_elem ''tender'' = None \<Longrightarrow> is_tender (currency_info_of currency_elem)"
  by (simp add: currency_info_of_def dict_get_def is_tender_def)

end
